theory Spec2Isabelle
  imports Main
begin

section \<open>C++ types as the compiler sees them\<close>

text \<open>
  The header that defines \<^verbatim>\<open>ArenaHelper\<close> computes, at compile time, three facts about
  a type \<open>T\<close> from what the compiler knows of it: whether a function taking a
  \<^verbatim>\<open>const typename T::ArenaManaged_ *\<close> (or \<^verbatim>\<open>const typename T::ArenaManagedSkipDestruct_ *\<close>)
  can be called with a \<^verbatim>\<open>const T*\<close>, whether \<open>T\<close> is trivially destructible, and whether
  \<open>T\<close> has the member types \<^verbatim>\<open>allocator_type\<close> and \<^verbatim>\<open>value_type\<close>. A type is therefore
  a value of the datatype below; the traits of the standard library and the operators
  \<^verbatim>\<open>sizeof\<close> and \<^verbatim>\<open>alignof\<close> are functions on it. Reference and function types, of
  which the header cannot form a \<^verbatim>\<open>const T*\<close>, are left out.

  Whether the tagged overload can be called depends on three things the compiler knows of
  the member type: that the name denotes a type of \<open>T\<close> at all; that it is accessible
  from \<^verbatim>\<open>ArenaHelper<T>\<close>, where the overload is declared (the name is public, or \<open>T\<close>
  declares the helper a friend), since an inaccessible name is a substitution failure; and
  that a \<^verbatim>\<open>const T*\<close> converts to a pointer to the aliased type. The tag macros alias
  \<^verbatim>\<open>void\<close>, to which every object pointer converts; a pointer to \<open>T\<close> also converts to
  a pointer to \<open>T\<close> itself and to an accessible unambiguous base class of \<open>T\<close>, and to
  nothing else.

  A class type is one of three kinds: a trivial class (trivial default constructor and
  trivially copyable, which in C++ requires a trivial destructor), a class that is not
  trivial but has a trivial destructor, and a class with a non-trivial destructor.
\<close>

datatype triviality = Trivial | TrivialDtor | NonTrivialDtor

text \<open>
  What a member type aliases, as far as the conversion of a \<^verbatim>\<open>const T*\<close> goes:
  \<^verbatim>\<open>void\<close>; \<open>T\<close> itself or an accessible unambiguous base class of \<open>T\<close>; or any other
  type, to a pointer to which a \<^verbatim>\<open>const T*\<close> does not convert (or to which no pointer can
  be formed).
\<close>

datatype alias_target = ToVoid | ToSelfOrBase | ToUnrelated

text \<open>
  A member type of a class under one of the two tag names: none (the name denotes no type
  of the class), or one with its accessibility from \<^verbatim>\<open>ArenaHelper<T>\<close> and what it aliases.
\<close>

datatype tag_member = NoMember | Member bool alias_target

datatype cpp_type =
    Void
  | Scalar string nat
  | Array cpp_type nat
  | PolymorphicAllocator cpp_type
  | Class string tag_member tag_member "cpp_type option" "cpp_type option" triviality nat nat

text \<open>
  \<open>Scalar name size\<close> is an arithmetic, enumeration or pointer type;
  \<open>PolymorphicAllocator V\<close> is \<^verbatim>\<open>std::pmr::polymorphic_allocator<V>\<close>;
  \<open>Class name full skip alloc val kind size align\<close> is a class type. \<open>full\<close> describes
  its member type \<^verbatim>\<open>ArenaManaged_\<close> and \<open>skip\<close> its member type
  \<^verbatim>\<open>ArenaManagedSkipDestruct_\<close>: \<open>NoMember\<close> when the name denotes no type of the class,
  and \<open>Member accessible target\<close> otherwise, where \<open>accessible\<close> says whether the name is
  accessible from \<^verbatim>\<open>ArenaHelper<T>\<close> and \<open>target\<close> what it aliases. A class that expands
  \<^verbatim>\<open>ArenaFullManagedTag\<close> (\<^verbatim>\<open>using ArenaManaged_ = void;\<close>) in a public section has
  \<open>full = Member True ToVoid\<close>; one that expands it in a private section, and does not
  befriend the helper, has \<open>full = Member False ToVoid\<close>; likewise for
  \<^verbatim>\<open>ArenaManagedCreateOnlyTag\<close> (\<^verbatim>\<open>using ArenaManagedSkipDestruct_ = void;\<close>) and \<open>skip\<close>.
  \<open>alloc\<close> and \<open>val\<close> are the member types \<^verbatim>\<open>allocator_type\<close> and \<^verbatim>\<open>value_type\<close> as
  the trait \<^verbatim>\<open>is_pmr_trivial_container\<close> sees them: \<open>None\<close> when the class has no such
  member type or the name is not accessible there.
\<close>

fun member_ArenaManaged :: "cpp_type \<Rightarrow> tag_member" where
  "member_ArenaManaged (Class _ full _ _ _ _ _ _) = full"
| "member_ArenaManaged _ = NoMember"

fun member_ArenaManagedSkipDestruct :: "cpp_type \<Rightarrow> tag_member" where
  "member_ArenaManagedSkipDestruct (Class _ _ skip _ _ _ _ _) = skip"
| "member_ArenaManagedSkipDestruct _ = NoMember"

text \<open>The type has a member type of that name, whatever its access and whatever it aliases.\<close>

definition has_ArenaManaged :: "cpp_type \<Rightarrow> bool" where
  "has_ArenaManaged T = (member_ArenaManaged T \<noteq> NoMember)"

definition has_ArenaManagedSkipDestruct :: "cpp_type \<Rightarrow> bool" where
  "has_ArenaManagedSkipDestruct T = (member_ArenaManagedSkipDestruct T \<noteq> NoMember)"

text \<open>A \<^verbatim>\<open>const T*\<close> converts implicitly to a \<^verbatim>\<open>const\<close> pointer to the aliased type.\<close>

fun pointer_converts :: "alias_target \<Rightarrow> bool" where
  "pointer_converts ToVoid = True"
| "pointer_converts ToSelfOrBase = True"
| "pointer_converts ToUnrelated = False"

text \<open>
  The overload taking a \<^verbatim>\<open>const\<close> pointer to the member type takes part in overload
  resolution for the argument \<^verbatim>\<open>static_cast<const T*>(0)\<close>: the substitution succeeds
  (the name denotes an accessible type) and the argument converts to the parameter.
\<close>

fun overload_viable :: "tag_member \<Rightarrow> bool" where
  "overload_viable NoMember = False"
| "overload_viable (Member accessible target) = (accessible \<and> pointer_converts target)"

fun allocator_type :: "cpp_type \<Rightarrow> cpp_type option" where
  "allocator_type (Class _ _ _ alloc _ _ _ _) = alloc"
| "allocator_type _ = None"

fun value_type :: "cpp_type \<Rightarrow> cpp_type option" where
  "value_type (Class _ _ _ _ val _ _ _) = val"
| "value_type (PolymorphicAllocator V) = Some V"
| "value_type _ = None"

fun is_trivially_destructible :: "cpp_type \<Rightarrow> bool" where
  "is_trivially_destructible Void = False"
| "is_trivially_destructible (Scalar _ _) = True"
| "is_trivially_destructible (Array T _) = is_trivially_destructible T"
| "is_trivially_destructible (PolymorphicAllocator _) = True"
| "is_trivially_destructible (Class _ _ _ _ _ k _ _) = (k \<noteq> NonTrivialDtor)"


fun sizeof :: "cpp_type \<Rightarrow> nat" where
  "sizeof Void = 0"
| "sizeof (Scalar _ n) = n"
| "sizeof (Array T n) = n * sizeof T"
| "sizeof (PolymorphicAllocator _) = 8"
| "sizeof (Class _ _ _ _ _ _ n _) = n"

fun alignof :: "cpp_type \<Rightarrow> nat" where
  "alignof Void = 0"
| "alignof (Scalar _ n) = n"
| "alignof (Array T _) = alignof T"
| "alignof (PolymorphicAllocator _) = 8"
| "alignof (Class _ _ _ _ _ _ _ a) = a"



section \<open>The traits of the ArenaHelper header\<close>

text \<open>
  \<^verbatim>\<open>is_pmr_trivial_container<T>\<close>: the partial specialisation is chosen when
  \<^verbatim>\<open>T::allocator_type\<close> and \<^verbatim>\<open>T::value_type\<close> both name types, the allocator type is
  \<^verbatim>\<open>std::pmr::polymorphic_allocator<T::value_type>\<close>, and the value type is trivially
  destructible; otherwise the primary template gives false.
\<close>

definition is_pmr_trivial_container :: "cpp_type \<Rightarrow> bool" where
  "is_pmr_trivial_container T =
     (case allocator_type T of
        None \<Rightarrow> False
      | Some A \<Rightarrow>
          (case value_type T of
             None \<Rightarrow> False
           | Some V \<Rightarrow> A = PolymorphicAllocator V \<and> is_trivially_destructible V))"

text \<open>
  The two overload sets of \<^verbatim>\<open>ArenaHelper<T>\<close>. Called with a \<^verbatim>\<open>const T*\<close>, the overload
  taking \<^verbatim>\<open>const typename U::ArenaManagedSkipDestruct_ *\<close> returns \<^verbatim>\<open>char\<close> and the
  variadic overload returns \<^verbatim>\<open>double\<close>. When the first is viable it is preferred, a
  pointer conversion being better than an ellipsis conversion; when the member type is
  missing or inaccessible (a substitution failure) or the pointer does not convert, only the
  variadic overload remains. The overloads are only declared; the trait compares the size
  of the return type with \<^verbatim>\<open>sizeof(char)\<close>.
\<close>

datatype return_type = Char | Double

fun sizeof_return :: "return_type \<Rightarrow> nat" where
  "sizeof_return Char = 1"
| "sizeof_return Double = 8"

definition DestructionSkippable :: "cpp_type \<Rightarrow> return_type" where
  "DestructionSkippable T =
     (if overload_viable (member_ArenaManagedSkipDestruct T) then Char else Double)"

definition ArenaHelper_is_destructor_skippable :: "cpp_type \<Rightarrow> bool" where
  "ArenaHelper_is_destructor_skippable T =
     (sizeof_return (DestructionSkippable T) = sizeof_return Char
      \<or> is_trivially_destructible T
      \<or> is_pmr_trivial_container T)"

definition ArenaConstructable :: "cpp_type \<Rightarrow> return_type" where
  "ArenaConstructable T = (if overload_viable (member_ArenaManaged T) then Char else Double)"

definition ArenaHelper_is_arena_constructable :: "cpp_type \<Rightarrow> bool" where
  "ArenaHelper_is_arena_constructable T =
     (sizeof_return (ArenaConstructable T) = sizeof_return Char)"

definition is_arena_full_managable :: "cpp_type \<Rightarrow> bool" where
  "is_arena_full_managable T = ArenaHelper_is_arena_constructable T"

definition is_destructor_skippable :: "cpp_type \<Rightarrow> bool" where
  "is_destructor_skippable T = ArenaHelper_is_destructor_skippable T"

definition Constructable :: "cpp_type \<Rightarrow> bool" where
  "Constructable T = (is_arena_full_managable T \<or> is_destructor_skippable T)"

definition NonConstructable :: "cpp_type \<Rightarrow> bool" where
  "NonConstructable T = (\<not> is_arena_full_managable T)"

definition DestructorSkippable :: "cpp_type \<Rightarrow> bool" where
  "DestructorSkippable T = is_destructor_skippable T"

subsection \<open>The types used by the benchmark and the README\<close>

definition int_type :: cpp_type where
  "int_type = Scalar ''int'' 4"

text \<open>\<^verbatim>\<open>struct TestObject { int data[4]; ArenaFullManagedTag; TestObject(); ~TestObject(); }\<close>\<close>

definition TestObject :: cpp_type where
  "TestObject = Class ''TestObject'' (Member True ToVoid) NoMember None None NonTrivialDtor 16 4"

text \<open>\<^verbatim>\<open>struct SimpleObject { int data[4]; ArenaManagedCreateOnlyTag; SimpleObject(); ~SimpleObject() = default; }\<close>\<close>

definition SimpleObject :: cpp_type where
  "SimpleObject = Class ''SimpleObject'' NoMember (Member True ToVoid) None None TrivialDtor 16 4"

text \<open>
  \<^verbatim>\<open>class arena_vector { public: arena_vector(Arena&); ArenaManagedCreateOnlyTag; private: Arena& arena_ref; std::pmr::vector<int> data; }\<close>
  of the README: the tag is public, and the destructor is not trivial, since the member
  \<open>data\<close> has one.
\<close>

definition arena_vector :: cpp_type where
  "arena_vector =
     Class ''arena_vector'' NoMember (Member True ToVoid) None None NonTrivialDtor 40 8"

text \<open>
  \<^verbatim>\<open>class parameterized_class { parameterized_class(Arena&, int, const std::string&); ArenaFullManagedTag; private: Arena& arena_ref; int value_; std::string name_; }\<close>
  of the README: the class has no access specifier before the tag, so the tag is private,
  and the member \<open>name_\<close> gives it a non-trivial destructor.
\<close>

definition parameterized_class :: cpp_type where
  "parameterized_class =
     Class ''parameterized_class'' (Member False ToVoid) NoMember None None NonTrivialDtor 48 8"

text \<open>
  \<^verbatim>\<open>class private_skip_tag { ArenaManagedCreateOnlyTag; std::pmr::vector<int> data; public: private_skip_tag(Arena&); }\<close>:
  the skip-destructor tag in a private section of a class with a non-trivial destructor.
\<close>

definition private_skip_tag :: cpp_type where
  "private_skip_tag =
     Class ''private_skip_tag'' NoMember (Member False ToVoid) None None NonTrivialDtor 32 8"

text \<open>
  \<^verbatim>\<open>struct int_alias { using ArenaManagedSkipDestruct_ = int; ~int_alias(); }\<close>: a public member
  type of the tag's name that is not the tag, in a class with a non-trivial destructor.
\<close>

definition int_alias :: cpp_type where
  "int_alias = Class ''int_alias'' NoMember (Member True ToUnrelated) None None NonTrivialDtor 1 1"

text \<open>\<^verbatim>\<open>std::pmr::vector<int>\<close>, created through the arena in the README.\<close>

definition pmr_vector_int :: cpp_type where
  "pmr_vector_int =
     Class ''std::pmr::vector<int>'' NoMember NoMember
       (Some (PolymorphicAllocator int_type)) (Some int_type) NonTrivialDtor 32 8"

section \<open>Aligned-address primitives\<close>

text \<open>
  The header includes \<^verbatim>\<open>arena/align.hpp\<close>, and the arena itself lives in
  \<^verbatim>\<open>arena/arena.hpp\<close>; neither file is among the sources. Everything from here to the
  end of the definitions is therefore modelled from the specification, the section of
  which is named at each definition. Sizes, offsets and addresses are natural numbers;
  size overflow is a precondition violation of the specification and is not modelled.
\<close>

type_synonym addr = nat

text \<open>Modelled from the spec: \<^verbatim>\<open>align_up\<close> of the absent \<^verbatim>\<open>arena/align.hpp\<close> (section 4.1).\<close>

definition align_up :: "nat \<Rightarrow> nat \<Rightarrow> nat" where
  "align_up n a = ((n + a - 1) div a) * a"

text \<open>Modelled from the spec: \<^verbatim>\<open>is_power_of_two\<close> of the absent \<^verbatim>\<open>arena/align.hpp\<close> (section 4.1).\<close>

definition is_power_of_two :: "nat \<Rightarrow> bool" where
  "is_power_of_two a = (a \<noteq> 0 \<and> and a (a - 1) = 0)"

section \<open>Blocks and their cleanup area\<close>

text \<open>
  A cleanup thunk is either the destructor of a type, as the typed facade registers it,
  or a function the caller supplied. A cleanup record pairs an object pointer with a thunk.
\<close>

datatype thunk = Destructor cpp_type | UserThunk nat

type_synonym cleanup_record = "addr \<times> thunk"

text \<open>
  Modelled from the spec: what the specification leaves to the implementation, taken as a
  parameter of every operation: the size of the block header, the maximum natural
  alignment, the size of a cleanup record, and whether \<^verbatim>\<open>reset\<close> retains the largest
  block (section 9).
\<close>

record layout =
  sizeof_Header :: nat
  max_alignment :: nat
  sizeof_record :: nat
  retain_largest_block :: bool

text \<open>
  Modelled from the spec: the block of the absent \<^verbatim>\<open>arena/arena.hpp\<close> (sections 3 and 4.2).
  \<open>base\<close> is the address of the raw buffer; \<open>pos\<close> and \<open>limit\<close> are offsets into the block.
  The cleanup area is the part of the backing storage from offset \<open>limit\<close> up to
  \<open>block_size\<close>, holding one record every \<open>sizeof_record\<close> bytes. \<open>used\<close> is the block's
  share of the arena's \<^verbatim>\<open>space_used\<close>, the bytes handed out to callers from this block
  (sections 4.3 and 4.7). The \<open>prev\<close> link is the tail of the arena's list of blocks.
\<close>

record block =
  base :: addr
  block_size :: nat
  pos :: nat
  limit :: nat
  cleanup_area :: "nat \<Rightarrow> cleanup_record option"
  used :: nat

text \<open>
  Modelled from the spec: the end of the block header, \<open>sizeof(Header)\<close> rounded up to the
  maximum natural alignment (section 4.2).
\<close>

definition header_end :: "layout \<Rightarrow> nat" where
  "header_end L = align_up (sizeof_Header L) (max_alignment L)"

text \<open>Modelled from the spec: block construction (section 4.2).\<close>

definition new_block :: "layout \<Rightarrow> addr \<Rightarrow> nat \<Rightarrow> block" where
  "new_block L b sz =
     \<lparr>base = b, block_size = sz, pos = header_end L, limit = sz,
      cleanup_area = (\<lambda>_. None), used = 0\<rparr>"

text \<open>
  Modelled from the spec: aligned bump allocation in a block (section 4.2). The result is
  the pointer at \<open>start\<close>, the alignment padding and the updated block, or \<open>None\<close> for the
  failure sentinel.
\<close>

definition block_allocate :: "block \<Rightarrow> nat \<Rightarrow> nat \<Rightarrow> (addr \<times> nat \<times> block) option" where
  "block_allocate b n a =
     (let start = align_up (pos b) a; end = start + n
      in if end > limit b then None
         else Some (base b + start, start - pos b, b\<lparr>pos := end, used := used b + n\<rparr>))"

text \<open>Modelled from the spec: cleanup registration in a block (section 4.2).\<close>

definition block_register_cleanup ::
    "layout \<Rightarrow> block \<Rightarrow> addr \<Rightarrow> thunk \<Rightarrow> block option" where
  "block_register_cleanup L b p t =
     (if sizeof_record L \<le> limit b \<and> limit b - sizeof_record L \<ge> pos b
      then Some (b\<lparr>limit := limit b - sizeof_record L,
                   cleanup_area := (cleanup_area b)(limit b - sizeof_record L := Some (p, t))\<rparr>)
      else None)"

text \<open>
  Modelled from the spec: the walk of a block's destruction (sections 3 and 4.2). The number
  of records is \<open>(size - limit) / sizeof(record)\<close>; they are read from \<open>limit\<close> upward.
  The result lists the records in the order their thunks are called.
\<close>

definition block_cleanups :: "layout \<Rightarrow> block \<Rightarrow> cleanup_record list" where
  "block_cleanups L b =
     List.map_filter (\<lambda>k. cleanup_area b (limit b + k * sizeof_record L))
       [0 ..< (block_size b - limit b) div sizeof_record L]"

text \<open>Modelled from the spec: the empty state a retained block is rewound to (section 4.3).\<close>

definition rewind :: "layout \<Rightarrow> block \<Rightarrow> block" where
  "rewind L b = b\<lparr>pos := header_end L, limit := block_size b, used := 0\<rparr>"

section \<open>The page source\<close>

text \<open>
  Modelled from the spec: the page source (sections 1 and 4.3). The system allocator is
  outside the arena; it is given by the answers it will make to the coming requests
  (\<open>None\<close> is a failure, as is an exhausted list) and by the list of the buffers returned
  to it.
\<close>

record page_source =
  responses :: "addr option list"
  released :: "(addr \<times> nat) list"

definition request_buffer :: "page_source \<Rightarrow> nat \<Rightarrow> addr option \<times> page_source" where
  "request_buffer ps sz =
     (case responses ps of
        [] \<Rightarrow> (None, ps)
      | r # rs \<Rightarrow> (r, ps\<lparr>responses := rs\<rparr>))"

definition release_buffer :: "page_source \<Rightarrow> block \<Rightarrow> page_source" where
  "release_buffer ps b = ps\<lparr>released := released ps @ [(base b, block_size b)]\<rparr>"

section \<open>The arena core\<close>

text \<open>
  Modelled from the spec: the options and the metrics counters (section 3). The counters
  \<^verbatim>\<open>space_allocated\<close> and \<^verbatim>\<open>space_used\<close> are named \<open>space_allocated_total\<close> and
  \<open>space_used_total\<close> here, apart from the arena's query.
\<close>

record options =
  normal_block_size :: nat
  huge_block_size :: nat
  block_size_suggestor :: "(nat \<Rightarrow> nat) option"

record metrics =
  arena_count :: nat
  block_count :: nat
  space_allocated_total :: nat
  space_used_total :: nat
  space_wasted :: nat
  allocation_count :: nat
  reset_count :: nat
  cleanup_count :: nat

text \<open>
  Modelled from the spec: the arena of the absent \<^verbatim>\<open>arena/arena.hpp\<close> (section 3). The chain
  of blocks is a list with \<open>head\<close> first, each block followed by its \<open>prev\<close>.
\<close>

record arena =
  blocks :: "block list"
  opts :: options
  local_metrics :: metrics

datatype error = PreconditionViolation | TypeConstraintViolation

text \<open>Modelled from the spec: the creation of an arena, with no block (section 3).\<close>

definition new_arena :: "options \<Rightarrow> metrics \<Rightarrow> arena" where
  "new_arena os m = \<lparr>blocks = [], opts = os, local_metrics = m\<lparr>arena_count := arena_count m + 1\<rparr>\<rparr>"

text \<open>Modelled from the spec: the queries of section 4.3, sums across the owned blocks.\<close>

definition space_allocated :: "arena \<Rightarrow> nat" where
  "space_allocated ar = sum_list (map block_size (blocks ar))"

definition space_used :: "arena \<Rightarrow> nat" where
  "space_used ar = sum_list (map used (blocks ar))"

text \<open>Modelled from the spec: the counters of section 4.7.\<close>

definition count_allocation :: "metrics \<Rightarrow> nat \<Rightarrow> nat \<Rightarrow> metrics" where
  "count_allocation m n padding =
     m\<lparr>allocation_count := allocation_count m + 1,
       space_used_total := space_used_total m + n,
       space_wasted := space_wasted m + padding\<rparr>"

definition count_block :: "metrics \<Rightarrow> nat \<Rightarrow> metrics" where
  "count_block m sz =
     m\<lparr>block_count := block_count m + 1,
       space_allocated_total := space_allocated_total m + sz\<rparr>"

definition count_cleanup_slot :: "layout \<Rightarrow> metrics \<Rightarrow> metrics" where
  "count_cleanup_slot L m = m\<lparr>space_wasted := space_wasted m + sizeof_record L\<rparr>"

definition count_reset :: "metrics \<Rightarrow> nat \<Rightarrow> metrics" where
  "count_reset m thunks_run =
     m\<lparr>reset_count := reset_count m + 1, cleanup_count := cleanup_count m + thunks_run\<rparr>"

text \<open>
  Modelled from the spec: the growth policy (section 4.3, steps 1 and 2). Without a
  suggestor the last block size is doubled (the first block has the normal size) and capped
  by the huge block size; the result is never less than what the request needs, so a
  request that demands more gets a block sized for it.
\<close>

definition next_block_size :: "layout \<Rightarrow> arena \<Rightarrow> nat \<Rightarrow> nat \<Rightarrow> bool \<Rightarrow> nat" where
  "next_block_size L ar n a with_cleanup =
     (let needed = n + a - 1 + sizeof_Header L + (if with_cleanup then sizeof_record L else 0);
          desired =
            (case block_size_suggestor (opts ar) of
               Some f \<Rightarrow> f (space_allocated ar)
             | None \<Rightarrow>
                 min (huge_block_size (opts ar))
                   (case blocks ar of
                      [] \<Rightarrow> normal_block_size (opts ar)
                    | b # _ \<Rightarrow> 2 * block_size b))
      in max desired needed)"

text \<open>Modelled from the spec: growth (section 4.3, steps 3 and 4).\<close>

definition grow ::
    "layout \<Rightarrow> arena \<Rightarrow> page_source \<Rightarrow> nat \<Rightarrow> nat \<Rightarrow> bool \<Rightarrow> arena option \<times> page_source" where
  "grow L ar ps n a with_cleanup =
     (let sz = next_block_size L ar n a with_cleanup
      in case request_buffer ps sz of
           (None, ps') \<Rightarrow> (None, ps')
         | (Some b, ps') \<Rightarrow>
             (Some (ar\<lparr>blocks := new_block L b sz # blocks ar,
                        local_metrics := count_block (local_metrics ar) sz\<rparr>), ps'))"

text \<open>
  Modelled from the spec: the attempt of \<^verbatim>\<open>allocate_aligned\<close> in the current block
  (section 4.3); \<open>None\<close> when \<open>head\<close> is null or the block cannot satisfy the request.
\<close>

definition try_allocate :: "arena \<Rightarrow> nat \<Rightarrow> nat \<Rightarrow> (addr \<times> arena) option" where
  "try_allocate ar n a =
     (case blocks ar of
        [] \<Rightarrow> None
      | b # bs \<Rightarrow>
          (case block_allocate b n a of
             None \<Rightarrow> None
           | Some (p, padding, b') \<Rightarrow>
               Some (p, ar\<lparr>blocks := b' # bs,
                           local_metrics := count_allocation (local_metrics ar) n padding\<rparr>)))"

text \<open>
  Modelled from the spec: \<^verbatim>\<open>allocate_aligned\<close> (section 4.3). A zero or non-power-of-two
  alignment is the fatal precondition violation; the pointer \<open>None\<close> is null.
\<close>

definition allocate_aligned ::
    "layout \<Rightarrow> arena \<Rightarrow> page_source \<Rightarrow> nat \<Rightarrow> nat
      \<Rightarrow> error + (addr option \<times> arena \<times> page_source)" where
  "allocate_aligned L ar ps n a =
     (if \<not> is_power_of_two a then Inl PreconditionViolation
      else case try_allocate ar n a of
             Some (p, ar') \<Rightarrow> Inr (Some p, ar', ps)
           | None \<Rightarrow>
               (case grow L ar ps n a False of
                  (None, ps') \<Rightarrow> Inr (None, ar, ps')
                | (Some ar1, ps') \<Rightarrow>
                    (case try_allocate ar1 n a of
                       Some (p, ar2) \<Rightarrow> Inr (Some p, ar2, ps')
                     | None \<Rightarrow> Inr (None, ar1, ps'))))"

text \<open>
  Modelled from the spec: the attempt of \<^verbatim>\<open>allocate_aligned_and_add_cleanup\<close> in the
  current block (section 4.3); \<open>None\<close> when either step does not fit.
\<close>

definition try_allocate_and_add_cleanup ::
    "layout \<Rightarrow> arena \<Rightarrow> nat \<Rightarrow> nat \<Rightarrow> thunk \<Rightarrow> (addr \<times> arena) option" where
  "try_allocate_and_add_cleanup L ar n a t =
     (case blocks ar of
        [] \<Rightarrow> None
      | b # bs \<Rightarrow>
          (case block_allocate b n a of
             None \<Rightarrow> None
           | Some (p, padding, b1) \<Rightarrow>
               (case block_register_cleanup L b1 p t of
                  None \<Rightarrow> None
                | Some b2 \<Rightarrow>
                    Some (p, ar\<lparr>blocks := b2 # bs,
                                local_metrics :=
                                  count_cleanup_slot L
                                    (count_allocation (local_metrics ar) n padding)\<rparr>))))"

text \<open>
  Modelled from the spec: \<^verbatim>\<open>allocate_aligned_and_add_cleanup\<close> (section 4.3): the object
  bytes and the cleanup record are reserved in the same block, both in a new block when
  either does not fit.
\<close>

definition allocate_aligned_and_add_cleanup ::
    "layout \<Rightarrow> arena \<Rightarrow> page_source \<Rightarrow> nat \<Rightarrow> nat \<Rightarrow> thunk
      \<Rightarrow> error + (addr option \<times> arena \<times> page_source)" where
  "allocate_aligned_and_add_cleanup L ar ps n a t =
     (if \<not> is_power_of_two a then Inl PreconditionViolation
      else case try_allocate_and_add_cleanup L ar n a t of
             Some (p, ar') \<Rightarrow> Inr (Some p, ar', ps)
           | None \<Rightarrow>
               (case grow L ar ps n a True of
                  (None, ps') \<Rightarrow> Inr (None, ar, ps')
                | (Some ar1, ps') \<Rightarrow>
                    (case try_allocate_and_add_cleanup L ar1 n a t of
                       Some (p, ar2) \<Rightarrow> Inr (Some p, ar2, ps')
                     | None \<Rightarrow> Inr (None, ar1, ps'))))"

text \<open>
  Modelled from the spec: the attempt of \<^verbatim>\<open>register_cleanup\<close> in the current block
  (section 4.3).
\<close>

definition try_register_cleanup :: "layout \<Rightarrow> arena \<Rightarrow> addr \<Rightarrow> thunk \<Rightarrow> arena option" where
  "try_register_cleanup L ar p t =
     (case blocks ar of
        [] \<Rightarrow> None
      | b # bs \<Rightarrow>
          (case block_register_cleanup L b p t of
             None \<Rightarrow> None
           | Some b' \<Rightarrow>
               Some (ar\<lparr>blocks := b' # bs,
                        local_metrics := count_cleanup_slot L (local_metrics ar)\<rparr>)))"

text \<open>
  Modelled from the spec: \<^verbatim>\<open>register_cleanup\<close> (section 4.3). A null pointer is a no-op;
  otherwise the record goes into the current block, or into a fresh block requested for a
  cleanup-only reservation. The result says whether the call succeeded.
\<close>

definition register_cleanup ::
    "layout \<Rightarrow> arena \<Rightarrow> page_source \<Rightarrow> addr option \<Rightarrow> thunk \<Rightarrow> bool \<times> arena \<times> page_source" where
  "register_cleanup L ar ps ptr t =
     (case ptr of
        None \<Rightarrow> (True, ar, ps)
      | Some p \<Rightarrow>
          (case try_register_cleanup L ar p t of
             Some ar' \<Rightarrow> (True, ar', ps)
           | None \<Rightarrow>
               (case grow L ar ps 0 1 True of
                  (None, ps') \<Rightarrow> (False, ar, ps')
                | (Some ar1, ps') \<Rightarrow>
                    (case try_register_cleanup L ar1 p t of
                       Some ar2 \<Rightarrow> (True, ar2, ps')
                     | None \<Rightarrow> (False, ar1, ps')))))"

text \<open>
  Modelled from the spec: the order of cleanup execution (section 4.5): blocks from \<open>head\<close>
  backward through \<open>prev\<close>, and within each block from the newest record to the oldest.
\<close>

definition run_cleanups :: "layout \<Rightarrow> arena \<Rightarrow> cleanup_record list" where
  "run_cleanups L ar = concat (map (block_cleanups L) (blocks ar))"

text \<open>
  Modelled from the spec: the block \<^verbatim>\<open>reset\<close> may retain (section 4.3): the largest block
  of the chain (the one nearest to \<open>head\<close> among equals), with the others.
\<close>

fun take_largest :: "block list \<Rightarrow> (block \<times> block list) option" where
  "take_largest [] = None"
| "take_largest (b # bs) =
     (case take_largest bs of
        None \<Rightarrow> Some (b, [])
      | Some (c, rest) \<Rightarrow>
          if block_size b \<ge> block_size c then Some (b, c # rest) else Some (c, b # rest))"

text \<open>
  Modelled from the spec: \<^verbatim>\<open>reset\<close> (section 4.3). The result is the number of bytes
  reclaimed, the cleanup records in the order their thunks were called, the arena and the
  page source.
\<close>

definition reset ::
    "layout \<Rightarrow> arena \<Rightarrow> page_source \<Rightarrow> nat \<times> cleanup_record list \<times> arena \<times> page_source" where
  "reset L ar ps =
     (let called = run_cleanups L ar;
          kept = (if retain_largest_block L then take_largest (blocks ar) else None);
          freed = (case kept of None \<Rightarrow> blocks ar | Some (_, rest) \<Rightarrow> rest)
      in (sum_list (map block_size freed),
          called,
          ar\<lparr>blocks := (case kept of None \<Rightarrow> [] | Some (k, _) \<Rightarrow> [rewind L k]),
             local_metrics := count_reset (local_metrics ar) (length called)\<rparr>,
          fold (\<lambda>b s. release_buffer s b) freed ps))"

text \<open>
  Modelled from the spec: destruction of the arena (section 3): every cleanup record runs
  and every block goes back to the page source.
\<close>

definition destroy :: "layout \<Rightarrow> arena \<Rightarrow> page_source \<Rightarrow> cleanup_record list \<times> page_source" where
  "destroy L ar ps =
     (run_cleanups L ar, fold (\<lambda>b s. release_buffer s b) (blocks ar) ps)"

section \<open>The typed construction facade\<close>

text \<open>
  Modelled from the spec: \<^verbatim>\<open>Arena::Create<T>\<close> of the absent \<^verbatim>\<open>arena/arena.hpp\<close>
  (section 4.4). The gate is the concept \<open>Constructable\<close> and the destructor decision is
  the concept \<open>DestructorSkippable\<close>, both of the header above. The object is constructed
  in place exactly when a pointer is returned; a type that is not destructor-skippable
  takes the path that reserves the object and its cleanup record together.
\<close>

definition Create ::
    "layout \<Rightarrow> arena \<Rightarrow> page_source \<Rightarrow> cpp_type
      \<Rightarrow> error + (addr option \<times> arena \<times> page_source)" where
  "Create L ar ps T =
     (if \<not> Constructable T then Inl TypeConstraintViolation
      else if DestructorSkippable T then allocate_aligned L ar ps (sizeof T) (alignof T)
      else allocate_aligned_and_add_cleanup L ar ps (sizeof T) (alignof T) (Destructor T))"

section \<open>Sequences of operations\<close>

text \<open>
  Modelled from the spec: the public operations of section 6 that allocate, register
  cleanups or reset. A caller's use of one arena is a list of operations. Running it keeps,
  beside the arena and the page source, the cleanup registrations that succeeded since the
  last reset, in the order they were made: a registration succeeded when
  \<^verbatim>\<open>register_cleanup\<close> of a non-null pointer returned success, when
  \<^verbatim>\<open>allocate_aligned_and_add_cleanup\<close> returned a pointer, or when \<open>Create\<close> of a type that
  is not destructor-skippable returned a pointer.
\<close>

datatype operation =
    AllocateAligned nat nat
  | AllocateAlignedAndAddCleanup nat nat thunk
  | RegisterCleanup "addr option" thunk
  | CreateObject cpp_type
  | Reset

type_synonym state = "arena \<times> page_source \<times> cleanup_record list"

fun registered_by :: "cpp_type \<Rightarrow> addr option \<Rightarrow> cleanup_record list" where
  "registered_by T None = []"
| "registered_by T (Some p) = (if DestructorSkippable T then [] else [(p, Destructor T)])"

fun step :: "layout \<Rightarrow> state \<Rightarrow> operation \<Rightarrow> error + state" where
  "step L (ar, ps, reg) (AllocateAligned n a) =
     (case allocate_aligned L ar ps n a of
        Inl e \<Rightarrow> Inl e
      | Inr (_, ar', ps') \<Rightarrow> Inr (ar', ps', reg))"
| "step L (ar, ps, reg) (AllocateAlignedAndAddCleanup n a t) =
     (case allocate_aligned_and_add_cleanup L ar ps n a t of
        Inl e \<Rightarrow> Inl e
      | Inr (None, ar', ps') \<Rightarrow> Inr (ar', ps', reg)
      | Inr (Some p, ar', ps') \<Rightarrow> Inr (ar', ps', reg @ [(p, t)]))"
| "step L (ar, ps, reg) (RegisterCleanup None t) =
     (case register_cleanup L ar ps None t of
        (_, ar', ps') \<Rightarrow> Inr (ar', ps', reg))"
| "step L (ar, ps, reg) (RegisterCleanup (Some p) t) =
     (case register_cleanup L ar ps (Some p) t of
        (False, ar', ps') \<Rightarrow> Inr (ar', ps', reg)
      | (True, ar', ps') \<Rightarrow> Inr (ar', ps', reg @ [(p, t)]))"
| "step L (ar, ps, reg) (CreateObject T) =
     (case Create L ar ps T of
        Inl e \<Rightarrow> Inl e
      | Inr (ptr, ar', ps') \<Rightarrow> Inr (ar', ps', reg @ registered_by T ptr))"
| "step L (ar, ps, reg) Reset =
     (case reset L ar ps of
        (_, _, ar', ps') \<Rightarrow> Inr (ar', ps', []))"

fun run :: "layout \<Rightarrow> state \<Rightarrow> operation list \<Rightarrow> error + state" where
  "run L s [] = Inr s"
| "run L s (x # xs) = (case step L s x of Inl e \<Rightarrow> Inl e | Inr s' \<Rightarrow> run L s' xs)"

section \<open>The invariant of the cleanup area\<close>

text \<open>
  Modelled from the spec: the part \<open>limit \<le> size\<close> of the block invariant (section 3), for
  one block and for every block of an arena.
\<close>

definition block_ok :: "block \<Rightarrow> bool" where
  "block_ok b = (limit b \<le> block_size b)"

definition chain_ok :: "arena \<Rightarrow> bool" where
  "chain_ok ar = list_all block_ok (blocks ar)"

section \<open>A small configuration\<close>

text \<open>
  Concrete values for the examples: a header and a cleanup record of 16 bytes each, and
  blocks of 64 bytes doubling up to 1024.
\<close>

definition example_layout :: layout where
  "example_layout =
     \<lparr>sizeof_Header = 16, max_alignment = 16, sizeof_record = 16, retain_largest_block = True\<rparr>"

definition example_options :: options where
  "example_options = \<lparr>normal_block_size = 64, huge_block_size = 1024, block_size_suggestor = None\<rparr>"

definition zero_metrics :: metrics where
  "zero_metrics =
     \<lparr>arena_count = 0, block_count = 0, space_allocated_total = 0, space_used_total = 0,
      space_wasted = 0, allocation_count = 0, reset_count = 0, cleanup_count = 0\<rparr>"

definition fresh_arena :: arena where
  "fresh_arena = new_arena example_options zero_metrics"

definition two_buffers :: page_source where
  "two_buffers = \<lparr>responses = [Some 4096, Some 8192], released = []\<rparr>"

definition arena_with_TestObject :: arena where
  "arena_with_TestObject =
     \<lparr>blocks =
        [(new_block example_layout 4096 64)
           \<lparr>pos := 32, limit := 48,
            cleanup_area := (\<lambda>_. None)(48 := Some (4112, Destructor TestObject)),
            used := 16\<rparr>],
      opts = example_options,
      local_metrics =
        \<lparr>arena_count = 1, block_count = 1, space_allocated_total = 64, space_used_total = 16,
         space_wasted = 16, allocation_count = 1, reset_count = 0, cleanup_count = 0\<rparr>\<rparr>"

definition four_registrations :: "operation list" where
  "four_registrations =
     [RegisterCleanup (Some 5) (UserThunk 1), RegisterCleanup (Some 6) (UserThunk 2),
      RegisterCleanup (Some 7) (UserThunk 3), RegisterCleanup (Some 8) (UserThunk 4)]"

section \<open>Lemmas about the traits\<close>

lemma is_arena_full_managable_iff:
  "is_arena_full_managable T = overload_viable (member_ArenaManaged T)"
  by (simp add: is_arena_full_managable_def ArenaHelper_is_arena_constructable_def
      ArenaConstructable_def)

lemma is_destructor_skippable_iff:
  "is_destructor_skippable T =
     (overload_viable (member_ArenaManagedSkipDestruct T)
      \<or> is_trivially_destructible T \<or> is_pmr_trivial_container T)"
  by (simp add: is_destructor_skippable_def ArenaHelper_is_destructor_skippable_def
      DestructionSkippable_def)

lemma overload_viable_iff:
  "overload_viable m = (\<exists>target. m = Member True target \<and> pointer_converts target)"
  by (cases m) auto

lemma overload_viable_imp_has_ArenaManaged:
  "overload_viable (member_ArenaManaged T) \<Longrightarrow> has_ArenaManaged T"
  by (auto simp: has_ArenaManaged_def)

lemma overload_viable_imp_has_ArenaManagedSkipDestruct:
  "overload_viable (member_ArenaManagedSkipDestruct T) \<Longrightarrow> has_ArenaManagedSkipDestruct T"
  by (auto simp: has_ArenaManagedSkipDestruct_def)




lemma is_pmr_trivial_container_iff:
  "is_pmr_trivial_container T =
     (\<exists>V. allocator_type T = Some (PolymorphicAllocator V) \<and> value_type T = Some V
          \<and> is_trivially_destructible V)"
  by (auto simp: is_pmr_trivial_container_def split: option.splits)

section \<open>Lemmas about alignment, blocks and the arena\<close>

text \<open>
  The modelled primitives do what section 4.1 says of them: \<open>is_power_of_two\<close> holds of
  the powers of two and of nothing else, and for a positive alignment \<open>align_up n a\<close> is
  the least multiple of \<open>a\<close> that is at least \<open>n\<close>.
\<close>

lemma is_power_of_two_exp: "is_power_of_two (2 ^ k)"
proof -
  have "and (2 ^ k) ((2::nat) ^ k - 1) = take_bit k (2 ^ k)"
    by (simp add: take_bit_eq_mask mask_eq_exp_minus_1)
  then show ?thesis
    by (simp add: is_power_of_two_def)
qed

lemma is_power_of_two_imp_exp: "is_power_of_two a \<Longrightarrow> \<exists>k. a = 2 ^ k"
proof (induction a rule: less_induct)
  case (less a)
  then have pos: "a \<noteq> 0" and zero: "and a (a - 1) = 0"
    by (simp_all add: is_power_of_two_def)
  show ?case
  proof (cases "a = 1")
    case True
    then have "a = 2 ^ 0" by simp
    then show ?thesis ..
  next
    case False
    with pos have big: "2 \<le> a" by simp
    show ?thesis
    proof (cases "even a")
      case True
      then obtain b where a: "a = 2 * b" ..
      with big have b: "b \<noteq> 0" by simp
      then have "a - 1 = 2 * (b - 1) + 1" by (simp add: a)
      then have "and a (a - 1) = 2 * and b (b - 1)"
        by (subst and_rec) (simp add: a)
      with zero have "is_power_of_two b" by (simp add: is_power_of_two_def b)
      moreover have "b < a" using b by (simp add: a)
      ultimately obtain k where "b = 2 ^ k" using less.IH by blast
      then have "a = 2 ^ Suc k" by (simp add: a)
      then show ?thesis ..
    next
      case False
      then obtain b where a: "a = 2 * b + 1" by (elim oddE)
      with big have b: "b \<noteq> 0" by simp
      have "and a (a - 1) = 2 * and b b"
        by (subst and_rec) (simp add: a)
      with zero b show ?thesis by simp
    qed
  qed
qed

lemma align_up_mod [simp]: "align_up n a mod a = 0"
  by (simp add: align_up_def)

lemma align_up_dvd [simp]: "a dvd align_up n a"
  by (simp add: align_up_def)

lemma align_up_ge: "0 < a \<Longrightarrow> n \<le> align_up n a"
proof -
  assume a: "0 < a"
  have "n + a - 1 < ((n + a - 1) div a) * a + a"
    using a by (metis add.commute dividend_less_div_times)
  then show ?thesis by (simp add: align_up_def)
qed

lemma align_up_least:
  assumes "0 < a" and "a dvd m" and "n \<le> m"
  shows "align_up n a \<le> m"
proof -
  from assms(2) obtain k where m: "m = a * k" ..
  have "(n + a - 1) div a \<le> (a * k + a - 1) div a"
    using assms(3) by (intro div_le_mono) (simp add: m)
  also have "(a * k + a - 1) div a = k"
    using assms(1) by (intro div_nat_eqI) simp_all
  finally show ?thesis by (simp add: align_up_def m mult.commute)
qed

lemma map_filter_upt_Suc:
  "List.map_filter f [0 ..< Suc n] =
     (case f 0 of None \<Rightarrow> [] | Some r \<Rightarrow> [r]) @ List.map_filter (\<lambda>k. f (Suc k)) [0 ..< n]"
proof -
  have "[0 ..< Suc n] = 0 # map Suc [0 ..< n]"
    by (simp add: upt_conv_Cons map_Suc_upt del: upt_Suc)
  then show ?thesis
    by (simp add: List.map_filter_def filter_map comp_def split: option.splits del: upt_Suc)
qed

lemma block_cleanups_new_block [simp]: "block_cleanups L (new_block L b sz) = []"
  by (simp add: block_cleanups_def new_block_def List.map_filter_def)

lemma block_cleanups_rewind [simp]: "block_cleanups L (rewind L b) = []"
  by (simp add: block_cleanups_def rewind_def List.map_filter_def)

lemma block_allocate_cleanups:
  assumes "block_allocate b n a = Some (p, padding, b')"
  shows "block_cleanups L b' = block_cleanups L b" and "block_ok b' = block_ok b"
  using assms
  by (auto simp: block_allocate_def block_cleanups_def block_ok_def Let_def split: if_splits)

lemma block_register_cleanup_cleanups:
  assumes rec: "0 < sizeof_record L" and ok: "block_ok b"
    and reg: "block_register_cleanup L b p t = Some b'"
  shows "block_cleanups L b' = (p, t) # block_cleanups L b" and "block_ok b'"
proof -
  let ?r = "sizeof_record L"
  let ?top = "block_size b"
  from reg have fits: "?r \<le> limit b"
    and b': "b' = b\<lparr>limit := limit b - ?r,
                    cleanup_area := (cleanup_area b)(limit b - ?r := Some (p, t))\<rparr>"
    by (auto simp: block_register_cleanup_def split: if_splits)
  from ok have le: "limit b \<le> ?top" by (simp add: block_ok_def)
  have "?top - (limit b - ?r) = (?top - limit b) + ?r"
    using fits le by simp
  moreover have "((?top - limit b) + ?r) div ?r = Suc ((?top - limit b) div ?r)"
    using rec by (simp only: div_add_self2)
  ultimately have count: "(?top - (limit b - ?r)) div ?r = Suc ((?top - limit b) div ?r)"
    by (simp only:)
  have cell: "limit b - ?r + Suc k * ?r = limit b + k * ?r" for k
    using fits by simp
  show "block_cleanups L b' = (p, t) # block_cleanups L b"
    unfolding block_cleanups_def b'
    using rec by (simp add: count map_filter_upt_Suc cell del: upt_Suc mult_Suc)
  show "block_ok b'"
    using le by (simp add: b' block_ok_def)
qed

lemma block_ok_new_block [simp]: "block_ok (new_block L b sz)"
  by (simp add: block_ok_def new_block_def)

lemma block_ok_rewind [simp]: "block_ok (rewind L b)"
  by (simp add: block_ok_def rewind_def)

lemma try_allocate_cleanups:
  assumes "try_allocate ar n a = Some (p, ar')"
  shows "run_cleanups L ar' = run_cleanups L ar" and "chain_ok ar' = chain_ok ar"
proof -
  from assms obtain b bs padding b' where bl: "blocks ar = b # bs"
    and al: "block_allocate b n a = Some (p, padding, b')" and ar': "blocks ar' = b' # bs"
    by (auto simp: try_allocate_def split: list.splits option.splits)
  show "run_cleanups L ar' = run_cleanups L ar"
    by (simp add: run_cleanups_def bl ar' block_allocate_cleanups(1) [OF al])
  show "chain_ok ar' = chain_ok ar"
    by (simp add: chain_ok_def bl ar' block_allocate_cleanups(2) [OF al])
qed

lemma grow_cleanups:
  assumes "grow L ar ps n a wc = (Some ar1, ps')"
  shows "run_cleanups L ar1 = run_cleanups L ar" and "chain_ok ar1 = chain_ok ar"
proof -
  from assms obtain b sz where "blocks ar1 = new_block L b sz # blocks ar"
    by (auto simp: grow_def Let_def split: prod.splits option.splits)
  then show "run_cleanups L ar1 = run_cleanups L ar" and "chain_ok ar1 = chain_ok ar"
    by (simp_all add: run_cleanups_def chain_ok_def)
qed

lemma allocate_aligned_cleanups:
  assumes "allocate_aligned L ar ps n a = Inr (r, ar', ps')"
  shows "run_cleanups L ar' = run_cleanups L ar" and "chain_ok ar' = chain_ok ar"
proof -
  from assms consider
      (head) p where "try_allocate ar n a = Some (p, ar')"
    | (fail) "ar' = ar"
    | (grown) ar1 ps1 p where "grow L ar ps n a False = (Some ar1, ps1)"
        and "try_allocate ar1 n a = Some (p, ar')"
    | (short) ps1 where "grow L ar ps n a False = (Some ar', ps1)"
    by (auto simp: allocate_aligned_def split: if_splits option.splits prod.splits)
  then have "run_cleanups L ar' = run_cleanups L ar \<and> chain_ok ar' = chain_ok ar"
  proof cases
    case head
    then show ?thesis by (simp add: try_allocate_cleanups)
  next
    case fail
    then show ?thesis by simp
  next
    case grown
    then show ?thesis by (simp add: try_allocate_cleanups [OF grown(2)] grow_cleanups [OF grown(1)])
  next
    case short
    then show ?thesis by (simp add: grow_cleanups [OF short])
  qed
  then show "run_cleanups L ar' = run_cleanups L ar" and "chain_ok ar' = chain_ok ar"
    by simp_all
qed

lemma try_allocate_and_add_cleanup_cleanups:
  assumes rec: "0 < sizeof_record L" and ok: "chain_ok ar"
    and "try_allocate_and_add_cleanup L ar n a t = Some (p, ar')"
  shows "run_cleanups L ar' = (p, t) # run_cleanups L ar" and "chain_ok ar'"
proof -
  from assms(3) obtain b bs padding b1 b2 where bl: "blocks ar = b # bs"
    and al: "block_allocate b n a = Some (p, padding, b1)"
    and rg: "block_register_cleanup L b1 p t = Some b2" and ar': "blocks ar' = b2 # bs"
    by (auto simp: try_allocate_and_add_cleanup_def split: list.splits option.splits)
  from ok bl have b: "block_ok b" and bs: "list_all block_ok bs"
    by (simp_all add: chain_ok_def)
  from b have b1: "block_ok b1"
    by (simp add: block_allocate_cleanups(2) [OF al])
  note reg = block_register_cleanup_cleanups [OF rec b1 rg]
  show "run_cleanups L ar' = (p, t) # run_cleanups L ar"
    by (simp add: run_cleanups_def bl ar' reg(1) block_allocate_cleanups(1) [OF al])
  show "chain_ok ar'"
    by (simp add: chain_ok_def ar' reg(2) bs)
qed

lemma allocate_aligned_and_add_cleanup_cleanups:
  assumes rec: "0 < sizeof_record L" and ok: "chain_ok ar"
    and "allocate_aligned_and_add_cleanup L ar ps n a t = Inr (r, ar', ps')"
  shows "run_cleanups L ar' = (case r of None \<Rightarrow> [] | Some p \<Rightarrow> [(p, t)]) @ run_cleanups L ar"
    and "chain_ok ar'"
proof -
  from assms(3) consider
      (head) p where "r = Some p" and "try_allocate_and_add_cleanup L ar n a t = Some (p, ar')"
    | (fail) "r = None" and "ar' = ar"
    | (grown) ar1 ps1 p where "r = Some p" and "grow L ar ps n a True = (Some ar1, ps1)"
        and "try_allocate_and_add_cleanup L ar1 n a t = Some (p, ar')"
    | (short) ps1 where "r = None" and "grow L ar ps n a True = (Some ar', ps1)"
    by (auto simp: allocate_aligned_and_add_cleanup_def
        split: if_splits option.splits prod.splits)
  then have "run_cleanups L ar' = (case r of None \<Rightarrow> [] | Some p \<Rightarrow> [(p, t)]) @ run_cleanups L ar
      \<and> chain_ok ar'"
  proof cases
    case head
    then show ?thesis
      using try_allocate_and_add_cleanup_cleanups [OF rec ok head(2)] by simp
  next
    case fail
    then show ?thesis using ok by simp
  next
    case grown
    from ok have ok1: "chain_ok ar1" by (simp add: grow_cleanups(2) [OF grown(2)])
    show ?thesis
      using try_allocate_and_add_cleanup_cleanups [OF rec ok1 grown(3)]
      by (simp add: grown(1) grow_cleanups(1) [OF grown(2)])
  next
    case short
    then show ?thesis using ok by (simp add: grow_cleanups [OF short(2)])
  qed
  then show "run_cleanups L ar' = (case r of None \<Rightarrow> [] | Some p \<Rightarrow> [(p, t)]) @ run_cleanups L ar"
    and "chain_ok ar'"
    by simp_all
qed

lemma try_register_cleanup_cleanups:
  assumes rec: "0 < sizeof_record L" and ok: "chain_ok ar"
    and "try_register_cleanup L ar p t = Some ar'"
  shows "run_cleanups L ar' = (p, t) # run_cleanups L ar" and "chain_ok ar'"
proof -
  from assms(3) obtain b bs b' where bl: "blocks ar = b # bs"
    and rg: "block_register_cleanup L b p t = Some b'" and ar': "blocks ar' = b' # bs"
    by (auto simp: try_register_cleanup_def split: list.splits option.splits)
  from ok bl have b: "block_ok b" and bs: "list_all block_ok bs"
    by (simp_all add: chain_ok_def)
  note reg = block_register_cleanup_cleanups [OF rec b rg]
  show "run_cleanups L ar' = (p, t) # run_cleanups L ar"
    by (simp add: run_cleanups_def bl ar' reg(1))
  show "chain_ok ar'"
    by (simp add: chain_ok_def ar' reg(2) bs)
qed

lemma register_cleanup_cleanups:
  assumes rec: "0 < sizeof_record L" and ok: "chain_ok ar"
    and "register_cleanup L ar ps ptr t = (succ, ar', ps')"
  shows "run_cleanups L ar' =
           (case ptr of None \<Rightarrow> [] | Some p \<Rightarrow> if succ then [(p, t)] else []) @ run_cleanups L ar"
    and "chain_ok ar'"
proof -
  from assms(3) consider
      (null) "ptr = None" and "ar' = ar"
    | (head) p where "ptr = Some p" and "succ" and "try_register_cleanup L ar p t = Some ar'"
    | (fail) p where "ptr = Some p" and "\<not> succ" and "ar' = ar"
    | (grown) p ar1 ps1 where "ptr = Some p" and "succ"
        and "grow L ar ps 0 1 True = (Some ar1, ps1)"
        and "try_register_cleanup L ar1 p t = Some ar'"
    | (short) p ps1 where "ptr = Some p" and "\<not> succ"
        and "grow L ar ps 0 1 True = (Some ar', ps1)"
    by (auto simp: register_cleanup_def split: option.splits prod.splits)
  then have "run_cleanups L ar' =
      (case ptr of None \<Rightarrow> [] | Some p \<Rightarrow> if succ then [(p, t)] else []) @ run_cleanups L ar
      \<and> chain_ok ar'"
  proof cases
    case null
    then show ?thesis using ok by simp
  next
    case head
    then show ?thesis
      using try_register_cleanup_cleanups [OF rec ok head(3)] by simp
  next
    case fail
    then show ?thesis using ok by simp
  next
    case grown
    from ok have ok1: "chain_ok ar1" by (simp add: grow_cleanups(2) [OF grown(3)])
    show ?thesis
      using try_register_cleanup_cleanups [OF rec ok1 grown(4)]
      by (simp add: grown(1,2) grow_cleanups(1) [OF grown(3)])
  next
    case short
    then show ?thesis using ok by (simp add: grow_cleanups [OF short(3)])
  qed
  then show "run_cleanups L ar' =
      (case ptr of None \<Rightarrow> [] | Some p \<Rightarrow> if succ then [(p, t)] else []) @ run_cleanups L ar"
    and "chain_ok ar'"
    by simp_all
qed

lemma reset_cleanups:
  assumes "reset L ar ps = (n, called, ar', ps')"
  shows "called = run_cleanups L ar" and "run_cleanups L ar' = []" and "chain_ok ar'"
proof -
  from assms have called: "called = run_cleanups L ar"
    and bl: "blocks ar' = [] \<or> (\<exists>k. blocks ar' = [rewind L k])"
    by (auto simp: reset_def Let_def split: option.splits prod.splits)
  show "called = run_cleanups L ar" by (rule called)
  from bl show "run_cleanups L ar' = []" by (auto simp: run_cleanups_def)
  from bl show "chain_ok ar'" by (auto simp: chain_ok_def)
qed

lemma Create_cleanups:
  assumes rec: "0 < sizeof_record L" and ok: "chain_ok ar"
    and cr: "Create L ar ps T = Inr (r, ar', ps')"
  shows "run_cleanups L ar' = registered_by T r @ run_cleanups L ar" and "chain_ok ar'"
proof -
  have "run_cleanups L ar' = registered_by T r @ run_cleanups L ar \<and> chain_ok ar'"
  proof (cases "DestructorSkippable T")
    case True
    with cr have al: "allocate_aligned L ar ps (sizeof T) (alignof T) = Inr (r, ar', ps')"
      by (simp add: Create_def split: if_splits)
    from True have "registered_by T r = []" by (cases r) simp_all
    then show ?thesis using ok by (simp add: allocate_aligned_cleanups [OF al])
  next
    case False
    with cr have al: "allocate_aligned_and_add_cleanup L ar ps (sizeof T) (alignof T)
        (Destructor T) = Inr (r, ar', ps')"
      by (simp add: Create_def split: if_splits)
    from False have "registered_by T r = (case r of None \<Rightarrow> [] | Some p \<Rightarrow> [(p, Destructor T)])"
      by (cases r) simp_all
    then show ?thesis
      using allocate_aligned_and_add_cleanup_cleanups [OF rec ok al] by simp
  qed
  then show "run_cleanups L ar' = registered_by T r @ run_cleanups L ar" and "chain_ok ar'"
    by simp_all
qed

lemma rev_registered_by [simp]: "rev (registered_by T r) = registered_by T r"
  by (cases r) simp_all

lemma step_invariant:
  assumes rec: "0 < sizeof_record L" and ok: "chain_ok ar" and inv: "run_cleanups L ar = rev reg"
    and st: "step L (ar, ps, reg) x = Inr (ar', ps', reg')"
  shows "chain_ok ar' \<and> run_cleanups L ar' = rev reg'"
proof (cases x)
  case (AllocateAligned n a)
  with st obtain r where "allocate_aligned L ar ps n a = Inr (r, ar', ps')" and "reg' = reg"
    by (auto split: sum.splits)
  then show ?thesis using ok inv by (simp add: allocate_aligned_cleanups)
next
  case (AllocateAlignedAndAddCleanup n a t)
  with st obtain r where al: "allocate_aligned_and_add_cleanup L ar ps n a t = Inr (r, ar', ps')"
    and "reg' = reg @ (case r of None \<Rightarrow> [] | Some p \<Rightarrow> [(p, t)])"
    by (auto split: sum.splits option.splits)
  then show ?thesis
    using allocate_aligned_and_add_cleanup_cleanups [OF rec ok al] inv
    by (simp split: option.splits)
next
  case (RegisterCleanup ptr t)
  with st obtain succ where rg: "register_cleanup L ar ps ptr t = (succ, ar', ps')"
    and "reg' = reg @ (case ptr of None \<Rightarrow> [] | Some p \<Rightarrow> if succ then [(p, t)] else [])"
    by (cases ptr) (auto split: prod.splits bool.splits)
  then show ?thesis
    using register_cleanup_cleanups [OF rec ok rg] inv
    by (simp split: option.splits)
next
  case (CreateObject T)
  with st obtain r where cr: "Create L ar ps T = Inr (r, ar', ps')"
    and "reg' = reg @ registered_by T r"
    by (auto split: sum.splits)
  then show ?thesis
    using Create_cleanups [OF rec ok cr] inv by simp
next
  case Reset
  with st obtain n called where rs: "reset L ar ps = (n, called, ar', ps')" and "reg' = []"
    by (auto split: prod.splits)
  then show ?thesis
    using reset_cleanups [OF rs] by simp
qed

lemma run_invariant:
  assumes rec: "0 < sizeof_record L"
  shows "chain_ok ar \<Longrightarrow> run_cleanups L ar = rev reg
    \<Longrightarrow> run L (ar, ps, reg) xs = Inr (ar', ps', reg')
    \<Longrightarrow> chain_ok ar' \<and> run_cleanups L ar' = rev reg'"
proof (induction xs arbitrary: ar ps reg)
  case Nil
  then show ?case by simp
next
  case (Cons x xs)
  from Cons.prems(3) obtain ar1 ps1 reg1
    where st: "step L (ar, ps, reg) x = Inr (ar1, ps1, reg1)"
      and rn: "run L (ar1, ps1, reg1) xs = Inr (ar', ps', reg')"
    by (auto split: sum.splits)
  from step_invariant [OF rec Cons.prems(1,2) st]
  have "chain_ok ar1" and "run_cleanups L ar1 = rev reg1" by simp_all
  then show ?case using Cons.IH rn by blast
qed

text \<open>The definitions unfolded to evaluate the model on the small configuration.\<close>

lemmas example_defs =
  example_layout_def example_options_def zero_metrics_def fresh_arena_def two_buffers_def
  four_registrations_def arena_with_TestObject_def arena_vector_def TestObject_def
  SimpleObject_def int_type_def parameterized_class_def private_skip_tag_def int_alias_def
  pmr_vector_int_def

lemmas arena_defs =
  new_arena_def new_block_def header_end_def align_up_def is_power_of_two_def
  block_allocate_def block_register_cleanup_def block_cleanups_def rewind_def
  request_buffer_def release_buffer_def space_allocated_def space_used_def
  count_allocation_def count_block_def count_cleanup_slot_def count_reset_def
  next_block_size_def grow_def try_allocate_def allocate_aligned_def
  try_allocate_and_add_cleanup_def allocate_aligned_and_add_cleanup_def
  try_register_cleanup_def register_cleanup_def run_cleanups_def reset_def destroy_def
  Create_def Constructable_def DestructorSkippable_def is_arena_full_managable_iff
  is_destructor_skippable_iff is_pmr_trivial_container_def chain_ok_def block_ok_def
  has_ArenaManaged_def has_ArenaManagedSkipDestruct_def
  List.map_filter_def Let_def

section \<open>The claims\<close>

text \<open>
  C1, as stated, fails: a class that carries the destructor-skip tag in a private section
  and has a non-trivial destructor has the member type \<^verbatim>\<open>ArenaManagedSkipDestruct_\<close>, yet
  the overload that names the member type is discarded (the name is not accessible from
  \<^verbatim>\<open>ArenaHelper<T>\<close>) and the type is not destructor-skippable. The same holds of a class
  whose public member type of that name aliases \<^verbatim>\<open>int\<close>, to which a \<^verbatim>\<open>const T*\<close> does
  not convert.
\<close>

theorem C1_counterexample:
  "has_ArenaManagedSkipDestruct private_skip_tag
   \<and> member_ArenaManagedSkipDestruct private_skip_tag = Member False ToVoid
   \<and> \<not> is_destructor_skippable private_skip_tag
   \<and> has_ArenaManagedSkipDestruct int_alias
   \<and> member_ArenaManagedSkipDestruct int_alias = Member True ToUnrelated
   \<and> \<not> is_destructor_skippable int_alias"
  by (simp add: is_destructor_skippable_iff is_pmr_trivial_container_def
      has_ArenaManagedSkipDestruct_def private_skip_tag_def int_alias_def)

text \<open>
  C1, amended. A type \<open>T\<close> is destructor-skippable if and only if its member type
  \<^verbatim>\<open>ArenaManagedSkipDestruct_\<close> is accessible from \<^verbatim>\<open>ArenaHelper<T>\<close> and a \<^verbatim>\<open>const T*\<close>
  converts to a pointer to it, or \<open>T\<close> is trivially destructible, or \<open>T\<close> has an
  \<^verbatim>\<open>allocator_type\<close> equal to \<^verbatim>\<open>std::pmr::polymorphic_allocator\<close> of its
  \<^verbatim>\<open>value_type\<close> and that value type is trivially destructible. In particular a type that
  carries the destructor-skip tag where the helper can access it is destructor-skippable.
  The concept the facade branches on is this trait, and a successful \<open>Create\<close> adds one
  cleanup record, the destructor thunk of the type on the new object, exactly when the type
  is not destructor-skippable; otherwise it adds none.
\<close>

theorem C1_destructor_skippable:
  "(is_destructor_skippable T \<longleftrightarrow>
      (\<exists>target. member_ArenaManagedSkipDestruct T = Member True target \<and> pointer_converts target)
      \<or> is_trivially_destructible T
      \<or> (\<exists>V. allocator_type T = Some (PolymorphicAllocator V) \<and> value_type T = Some V
            \<and> is_trivially_destructible V))
   \<and> (member_ArenaManagedSkipDestruct T = Member True ToVoid \<longrightarrow> is_destructor_skippable T)
   \<and> (DestructorSkippable T \<longleftrightarrow> is_destructor_skippable T)
   \<and> (0 < sizeof_record L \<and> chain_ok ar \<and> Create L ar ps T = Inr (Some p, ar', ps') \<longrightarrow>
        run_cleanups L ar' =
          (if is_destructor_skippable T then run_cleanups L ar
           else (p, Destructor T) # run_cleanups L ar))"
proof -
  have "run_cleanups L ar' =
          (if is_destructor_skippable T then run_cleanups L ar
           else (p, Destructor T) # run_cleanups L ar)"
    if "0 < sizeof_record L" and "chain_ok ar" and "Create L ar ps T = Inr (Some p, ar', ps')"
    using Create_cleanups(1) [OF that] by (simp add: DestructorSkippable_def)
  moreover have "is_destructor_skippable T \<longleftrightarrow>
      (\<exists>target. member_ArenaManagedSkipDestruct T = Member True target \<and> pointer_converts target)
      \<or> is_trivially_destructible T
      \<or> (\<exists>V. allocator_type T = Some (PolymorphicAllocator V) \<and> value_type T = Some V
            \<and> is_trivially_destructible V)"
    by (simp only: is_destructor_skippable_iff is_pmr_trivial_container_iff overload_viable_iff)
  moreover have "is_destructor_skippable T"
    if "member_ArenaManagedSkipDestruct T = Member True ToVoid"
    using that by (simp add: is_destructor_skippable_iff)
  ultimately show ?thesis
    by (simp only: DestructorSkippable_def) blast
qed

theorem C1_witness:
  "member_ArenaManagedSkipDestruct arena_vector = Member True ToVoid
   \<and> \<not> is_trivially_destructible arena_vector \<and> is_destructor_skippable arena_vector
   \<and> 0 < sizeof_record example_layout \<and> chain_ok fresh_arena
   \<and> \<not> is_destructor_skippable TestObject
   \<and> (\<exists>ar' ps'. Create example_layout fresh_arena two_buffers TestObject = Inr (Some 4112, ar', ps')
          \<and> run_cleanups example_layout fresh_arena = []
          \<and> run_cleanups example_layout ar' = [(4112, Destructor TestObject)])"
proof -
  have rec: "0 < sizeof_record example_layout" and ok: "chain_ok fresh_arena"
    and none: "run_cleanups example_layout fresh_arena = []"
    and skip: "\<not> is_destructor_skippable TestObject"
    by (simp_all add: example_defs arena_defs)
  have tag: "member_ArenaManagedSkipDestruct arena_vector = Member True ToVoid"
    and dtor: "\<not> is_trivially_destructible arena_vector"
    by (simp_all add: arena_vector_def)
  from C1_destructor_skippable [of arena_vector] tag
  have skippable: "is_destructor_skippable arena_vector"
    by simp
  obtain ar' ps' where
    cr: "Create example_layout fresh_arena two_buffers TestObject = Inr (Some 4112, ar', ps')"
    by (simp add: example_defs arena_defs)
  from C1_destructor_skippable [of TestObject example_layout fresh_arena two_buffers 4112 ar' ps']
    rec ok cr skip none
  have "run_cleanups example_layout ar' = [(4112, Destructor TestObject)]"
    by simp
  with rec ok skip cr none tag dtor skippable show ?thesis by blast
qed




text \<open>
  C3. Whatever operations were run on a new arena, a reset or the destruction of the arena
  calls the thunks of the cleanup registrations made since the last reset, each once, in
  the reverse of the order in which they were registered; this holds also when a
  registration spilled into a freshly grown block.
\<close>

theorem C3_cleanup_order:
  "0 < sizeof_record L \<and> run L (new_arena os m, ps, []) xs = Inr (ar, ps', reg) \<longrightarrow>
     fst (snd (reset L ar ps')) = rev reg \<and> fst (destroy L ar ps') = rev reg"
proof
  assume h: "0 < sizeof_record L \<and> run L (new_arena os m, ps, []) xs = Inr (ar, ps', reg)"
  have "chain_ok (new_arena os m)" and "run_cleanups L (new_arena os m) = rev []"
    by (simp_all add: chain_ok_def run_cleanups_def new_arena_def)
  with h have "run_cleanups L ar = rev reg"
    using run_invariant by blast
  then show "fst (snd (reset L ar ps')) = rev reg \<and> fst (destroy L ar ps') = rev reg"
    by (simp add: reset_def destroy_def Let_def)
qed

theorem C3_witness:
  "0 < sizeof_record example_layout
   \<and> (\<exists>ar ps'.
        run example_layout (fresh_arena, two_buffers, []) four_registrations =
          Inr (ar, ps', [(5, UserThunk 1), (6, UserThunk 2), (7, UserThunk 3), (8, UserThunk 4)])
        \<and> length (blocks ar) = 2
        \<and> fst (snd (reset example_layout ar ps')) =
            [(8, UserThunk 4), (7, UserThunk 3), (6, UserThunk 2), (5, UserThunk 1)]
        \<and> fst (destroy example_layout ar ps') =
            [(8, UserThunk 4), (7, UserThunk 3), (6, UserThunk 2), (5, UserThunk 1)])"
proof -
  have rec: "0 < sizeof_record example_layout"
    by (simp add: example_layout_def)
  obtain ar ps' where
    rn: "run example_layout (new_arena example_options zero_metrics, two_buffers, [])
           four_registrations =
         Inr (ar, ps', [(5, UserThunk 1), (6, UserThunk 2), (7, UserThunk 3), (8, UserThunk 4)])"
    and two: "length (blocks ar) = 2"
    by (simp add: example_defs arena_defs)
  from C3_cleanup_order [of example_layout example_options zero_metrics two_buffers
      four_registrations ar ps'
      "[(5, UserThunk 1), (6, UserThunk 2), (7, UserThunk 3), (8, UserThunk 4)]"] rec rn
  have "fst (snd (reset example_layout ar ps')) =
          [(8, UserThunk 4), (7, UserThunk 3), (6, UserThunk 2), (5, UserThunk 1)]
      \<and> fst (destroy example_layout ar ps') =
          [(8, UserThunk 4), (7, UserThunk 3), (6, UserThunk 2), (5, UserThunk 1)]"
    by simp
  with rec rn two show ?thesis by (auto simp: fresh_arena_def)
qed

text \<open>
  C4, as stated, fails: a class that carries the skip-destructor marker in a private section
  and has a non-trivial destructor is neither destructor-skippable nor accepted by the gate
  \<open>Constructable\<close>, the marker not being accessible from \<^verbatim>\<open>ArenaHelper<T>\<close>.
\<close>

theorem C4_counterexample:
  "has_ArenaManagedSkipDestruct private_skip_tag
   \<and> member_ArenaManagedSkipDestruct private_skip_tag = Member False ToVoid
   \<and> \<not> Constructable private_skip_tag
   \<and> \<not> DestructorSkippable private_skip_tag"
  by (simp add: Constructable_def DestructorSkippable_def is_arena_full_managable_iff
      is_destructor_skippable_iff is_pmr_trivial_container_def has_ArenaManagedSkipDestruct_def
      private_skip_tag_def)

text \<open>
  C4, amended. Every type \<open>T\<close> whose skip-destructor marker is accessible from
  \<^verbatim>\<open>ArenaHelper<T>\<close> (the member type \<^verbatim>\<open>ArenaManagedSkipDestruct_\<close> is accessible there and a
  \<^verbatim>\<open>const T*\<close> converts to a pointer to it, as with the macro in a public section) passes
  the gate \<open>Constructable\<close>, with or without the full-managed marker, and is
  destructor-skippable; creating an object of such a type registers no cleanup, so a reset
  or the destruction of the arena calls the same thunks as it would have without the object,
  and none for it.
\<close>

theorem C4_skip_destructor_marker:
  "member_ArenaManagedSkipDestruct T = Member True target \<and> pointer_converts target \<longrightarrow>
     Constructable T \<and> DestructorSkippable T
     \<and> (Create L ar ps T = Inr (r, ar', ps') \<longrightarrow>
          run_cleanups L ar' = run_cleanups L ar
          \<and> fst (snd (reset L ar' ps')) = fst (snd (reset L ar ps'))
          \<and> fst (destroy L ar' ps') = fst (destroy L ar ps'))"
proof
  assume tag: "member_ArenaManagedSkipDestruct T = Member True target \<and> pointer_converts target"
  then have skip: "DestructorSkippable T"
    by (simp add: DestructorSkippable_def is_destructor_skippable_iff)
  then have gate: "Constructable T"
    by (simp add: Constructable_def DestructorSkippable_def)
  have "run_cleanups L ar' = run_cleanups L ar"
    if "Create L ar ps T = Inr (r, ar', ps')"
  proof -
    from that skip gate have "allocate_aligned L ar ps (sizeof T) (alignof T) = Inr (r, ar', ps')"
      by (simp add: Create_def)
    then show ?thesis by (rule allocate_aligned_cleanups(1))
  qed
  then show "Constructable T \<and> DestructorSkippable T
     \<and> (Create L ar ps T = Inr (r, ar', ps') \<longrightarrow>
          run_cleanups L ar' = run_cleanups L ar
          \<and> fst (snd (reset L ar' ps')) = fst (snd (reset L ar ps'))
          \<and> fst (destroy L ar' ps') = fst (destroy L ar ps'))"
    using skip gate by (simp add: reset_def destroy_def Let_def)
qed

theorem C4_witness:
  "member_ArenaManagedSkipDestruct SimpleObject = Member True ToVoid \<and> pointer_converts ToVoid
   \<and> Constructable SimpleObject
   \<and> member_ArenaManagedSkipDestruct arena_vector = Member True ToVoid
   \<and> member_ArenaManaged arena_vector = NoMember
   \<and> \<not> is_trivially_destructible arena_vector
   \<and> Constructable arena_vector \<and> DestructorSkippable arena_vector
   \<and> (\<exists>ar' ps'. Create example_layout fresh_arena two_buffers arena_vector = Inr (Some 4112, ar', ps')
          \<and> run_cleanups example_layout ar' = []
          \<and> fst (snd (reset example_layout ar' ps')) = [])"
proof -
  have tag: "member_ArenaManagedSkipDestruct arena_vector = Member True ToVoid"
    and facts: "member_ArenaManaged arena_vector = NoMember"
      "\<not> is_trivially_destructible arena_vector"
    and simple: "member_ArenaManagedSkipDestruct SimpleObject = Member True ToVoid"
    and none: "run_cleanups example_layout fresh_arena = []"
      "\<And>ps. fst (snd (reset example_layout fresh_arena ps)) = []"
    by (simp_all add: example_defs arena_defs)
  obtain ar' ps' where
    cr: "Create example_layout fresh_arena two_buffers arena_vector = Inr (Some 4112, ar', ps')"
    by (simp add: example_defs arena_defs)
  from C4_skip_destructor_marker
    [of arena_vector ToVoid example_layout fresh_arena two_buffers "Some 4112" ar' ps'] tag cr none
  have "Constructable arena_vector \<and> DestructorSkippable arena_vector
      \<and> run_cleanups example_layout ar' = []
      \<and> fst (snd (reset example_layout ar' ps')) = []"
    by simp
  moreover from C4_skip_destructor_marker [of SimpleObject ToVoid] simple
  have "Constructable SimpleObject"
    by simp
  ultimately show ?thesis using tag facts simple cr by auto
qed

text \<open>
  C5. Immediately after a reset the arena's \<open>space_used\<close> is 0, whether or not the reset
  retains the largest block; and a second reset with nothing in between calls no cleanup
  thunk, reclaims nothing, leaves the page source as it is and changes nothing in the arena
  but \<open>reset_count\<close>, which it increments.
\<close>

theorem C5_reset_idempotent:
  "(case reset L ar ps of
      (n1, called1, ar1, ps1) \<Rightarrow>
        space_used ar1 = 0
        \<and> (case reset L ar1 ps1 of
             (n2, called2, ar2, ps2) \<Rightarrow>
               called2 = [] \<and> n2 = 0 \<and> ps2 = ps1
               \<and> ar2 = ar1\<lparr>local_metrics :=
                              (local_metrics ar1)\<lparr>reset_count := reset_count (local_metrics ar1) + 1\<rparr>\<rparr>))"
proof (cases "retain_largest_block L")
  case False
  then show ?thesis
    by (simp add: reset_def Let_def space_used_def run_cleanups_def count_reset_def)
next
  case True
  show ?thesis
  proof (cases "take_largest (blocks ar)")
    case None
    then have "blocks ar = []" by (cases "blocks ar") (auto split: option.splits prod.splits if_splits)
    with True show ?thesis
      by (simp add: reset_def Let_def space_used_def run_cleanups_def count_reset_def)
  next
    case (Some kr)
    obtain k rest where kr: "kr = (k, rest)" by (cases kr)
    have rw: "rewind L (rewind L k) = rewind L k"
      by (simp add: rewind_def)
    have used: "used (rewind L k) = 0"
      by (simp add: rewind_def)
    from True Some kr show ?thesis
      by (simp add: reset_def Let_def space_used_def run_cleanups_def count_reset_def rw used)
  qed
qed

theorem C5_witness:
  "Create example_layout fresh_arena two_buffers TestObject =
     Inr (Some 4112, arena_with_TestObject, \<lparr>responses = [Some 8192], released = []\<rparr>)
   \<and> space_used arena_with_TestObject = 16
   \<and> fst (snd (reset example_layout arena_with_TestObject two_buffers)) =
       [(4112, Destructor TestObject)]
   \<and> (case reset example_layout arena_with_TestObject two_buffers of
        (n1, called1, ar1, ps1) \<Rightarrow>
          space_used ar1 = 0
          \<and> (case reset example_layout ar1 ps1 of
               (n2, called2, ar2, ps2) \<Rightarrow>
                 called2 = [] \<and> n2 = 0 \<and> ps2 = ps1
                 \<and> ar2 = ar1\<lparr>local_metrics :=
                            (local_metrics ar1)\<lparr>reset_count := reset_count (local_metrics ar1) + 1\<rparr>\<rparr>))"
proof -
  have "Create example_layout fresh_arena two_buffers TestObject =
     Inr (Some 4112, arena_with_TestObject, \<lparr>responses = [Some 8192], released = []\<rparr>)"
    and "space_used arena_with_TestObject = 16"
    and "fst (snd (reset example_layout arena_with_TestObject two_buffers)) =
       [(4112, Destructor TestObject)]"
    by (simp_all add: example_defs arena_defs)
  with C5_reset_idempotent [of example_layout arena_with_TestObject two_buffers]
  show ?thesis by simp
qed

text \<open>
  C10. \<open>Constructable\<close> and \<open>NonConstructable\<close> are not complementary: every type
  without either tag whose destructor is trivial satisfies both, since \<open>Constructable\<close>
  holds by destructor-skippability alone and \<open>NonConstructable\<close> is exactly the negation
  of the full-managed tag check.
\<close>

theorem C10_constructable_and_nonconstructable:
  "(\<not> has_ArenaManaged T \<and> \<not> has_ArenaManagedSkipDestruct T \<and> is_trivially_destructible T
      \<longrightarrow> Constructable T \<and> NonConstructable T)
   \<and> (is_destructor_skippable T \<longrightarrow> Constructable T)
   \<and> (NonConstructable T \<longleftrightarrow> \<not> is_arena_full_managable T)
   \<and> (\<exists>U. Constructable U \<and> NonConstructable U)"
proof -
  have "Constructable int_type \<and> NonConstructable int_type"
    by (simp add: Constructable_def NonConstructable_def is_arena_full_managable_iff
        is_destructor_skippable_iff int_type_def)
  then have "\<exists>U. Constructable U \<and> NonConstructable U" ..
  moreover have "\<not> is_arena_full_managable T" if "\<not> has_ArenaManaged T"
    using that overload_viable_imp_has_ArenaManaged [of T]
    by (auto simp: is_arena_full_managable_iff)
  ultimately show ?thesis
    by (auto simp: Constructable_def NonConstructable_def is_destructor_skippable_iff)
qed

theorem C10_witness:
  "\<not> has_ArenaManaged int_type \<and> \<not> has_ArenaManagedSkipDestruct int_type
   \<and> is_trivially_destructible int_type
   \<and> Constructable int_type \<and> NonConstructable int_type"
  using C10_constructable_and_nonconstructable [of int_type]
  by (simp add: int_type_def has_ArenaManaged_def has_ArenaManagedSkipDestruct_def)

end
